theory Spec2Isabelle
  imports Main
begin

section \<open>The ESP-IDF version gate \<^verbatim>\<open>versionCheck.py\<close>\<close>

text \<open>
  The script \<^verbatim>\<open>build/devices/esp32/xsProj-esp32/versionCheck.py\<close> is a module body
  without functions. It reads \<^verbatim>\<open>sys.argv\<close>, writes lines to standard output with
  \<^verbatim>\<open>print\<close> and ends with \<^verbatim>\<open>sys.exit\<close>, or with an uncaught exception. The model
  is a function from the argument vector (program name first, as in \<^verbatim>\<open>sys.argv\<close>) to
  the lines printed and the way the process ends.
\<close>

subsection \<open>Python values and built-ins the script uses\<close>

text \<open>
  The lists \<^verbatim>\<open>g\<close> and \<^verbatim>\<open>e\<close> hold the tokens of \<^verbatim>\<open>str.split\<close>, which are strings, and
  the element added by \<^verbatim>\<open>append(0)\<close>, which is an integer. Equality of a \<^verbatim>\<open>str\<close> and an
  \<^verbatim>\<open>int\<close> is \<^verbatim>\<open>False\<close> in Python, as it is between the two constructors here.
\<close>

datatype pyval = PyStr string | PyInt int

datatype py_error = IndexError

text \<open>
  How the process ends: \<^verbatim>\<open>sys.exit(n)\<close>, or an exception nobody catches (the interpreter
  then writes a traceback to standard error and the exit status is 1).
\<close>

datatype outcome = Exit int | Uncaught py_error

fun exit_status :: "outcome \<Rightarrow> int" where
  "exit_status (Exit n) = n"
| "exit_status (Uncaught err) = 1"

text \<open>
  \<^verbatim>\<open>s.split(sep)\<close> for a one-character separator: the text is cut at every occurrence
  of the separator, empty tokens are kept, and a text without the separator (also the
  empty text) gives one token. \<open>tok\<close> is the token being read.
\<close>

fun split_from :: "char \<Rightarrow> string \<Rightarrow> string \<Rightarrow> string list" where
  "split_from sep tok [] = [tok]"
| "split_from sep tok (c # cs) =
     (if c = sep then tok # split_from sep [] cs else split_from sep (tok @ [c]) cs)"

definition split :: "string \<Rightarrow> char \<Rightarrow> string list" where
  "split s sep = split_from sep [] s"

text \<open>\<^verbatim>\<open>xs[i]\<close> for a literal index \<open>i \<ge> 0\<close>: out of range raises \<^verbatim>\<open>IndexError\<close>.\<close>

definition getitem :: "'a list \<Rightarrow> nat \<Rightarrow> py_error + 'a" where
  "getitem xs i = (if i < length xs then Inr (xs ! i) else Inl IndexError)"

text \<open>
  \<^verbatim>\<open>g[i] == e[i]\<close> and \<^verbatim>\<open>g[i] != e[i]\<close>: the left operand is read first, then the right
  one; the first read out of range raises.
\<close>

definition eq_at :: "pyval list \<Rightarrow> pyval list \<Rightarrow> nat \<Rightarrow> py_error + bool" where
  "eq_at g e i =
     (case getitem g i of
        Inl err \<Rightarrow> Inl err
      | Inr a \<Rightarrow> (case getitem e i of Inl err \<Rightarrow> Inl err | Inr b \<Rightarrow> Inr (a = b)))"

definition ne_at :: "pyval list \<Rightarrow> pyval list \<Rightarrow> nat \<Rightarrow> py_error + bool" where
  "ne_at g e i =
     (case getitem g i of
        Inl err \<Rightarrow> Inl err
      | Inr a \<Rightarrow> (case getitem e i of Inl err \<Rightarrow> Inl err | Inr b \<Rightarrow> Inr (a \<noteq> b)))"

subsection \<open>The script\<close>

definition update :: string where
  "update = ''  See update instrucitons at: https://github.com/Moddable-OpenSource/moddable/blob/public/documentation/devices/esp32.md''"

text \<open>
  Lines 11 to 13 for \<^verbatim>\<open>given\<close>, lines 14 to 16 for \<^verbatim>\<open>expected\<close>: split on the dot, then
  one \<^verbatim>\<open>append(0)\<close> when the list has fewer than three elements.
\<close>

definition components :: "string \<Rightarrow> pyval list" where
  "components s =
     (let g = map PyStr (split s (CHR ''.''))
      in if length g < 3 then g @ [PyInt 0] else g)"

text \<open>
  Lines 18 to 37: the nested comparison of \<^verbatim>\<open>g\<close> and \<^verbatim>\<open>e\<close>. No line is printed before
  the last list access, so an exception leaves standard output empty.
\<close>

definition compare :: "string \<Rightarrow> string \<Rightarrow> pyval list \<Rightarrow> pyval list \<Rightarrow> string list \<times> outcome" where
  "compare expected given g e =
     (case eq_at g e 0 of
        Inl err \<Rightarrow> ([], Uncaught err)
      | Inr major \<Rightarrow>
          if major then
            (case eq_at g e 1 of
               Inl err \<Rightarrow> ([], Uncaught err)
             | Inr minor \<Rightarrow>
                 if minor then
                   (case eq_at g e 2 of
                      Inl err \<Rightarrow> ([], Uncaught err)
                    | Inr patch \<Rightarrow>
                        if patch then ([], Exit 0)
                        else
                          (case ne_at g e 2 of
                             Inl err \<Rightarrow> ([], Uncaught err)
                           | Inr differ \<Rightarrow>
                               if differ then
                                 ([''Recommend using ESP-IDF '' @ expected @ '' (found '' @ given @ '')'',
                                   update], Exit 0)
                               else ([], Exit 0)))
                 else ([''*** Update required to ESP-IDF '' @ expected, update], Exit 1))
          else ([''*** Update required to ESP-IDF '' @ expected, update], Exit 1))"

text \<open>
  The whole module: the guard on the number of arguments (lines 3 to 5), then
  \<^verbatim>\<open>expected = sys.argv[1]\<close>, \<^verbatim>\<open>given = sys.argv[2]\<close>, the two lists and the comparison.
\<close>

definition versionCheck :: "string list \<Rightarrow> string list \<times> outcome" where
  "versionCheck argv =
     (if length argv < 3 then ([''Not enough parameters''], Exit 1)
      else
        let expected = argv ! 1;
            given = argv ! 2;
            g = components given;
            e = components expected
        in compare expected given g e)"

section \<open>Properties\<close>

subsection \<open>Basic facts\<close>

text \<open>
  \<^verbatim>\<open>split\<close> always returns at least one token, so after the \<^verbatim>\<open>append\<close> each list has at
  least two elements: the reads at indices 0 and 1 never raise.
\<close>

lemma split_from_nonempty: "split_from sep tok s \<noteq> []"
  by (induction s arbitrary: tok) auto

lemma split_nonempty: "split s sep \<noteq> []"
  by (simp add: split_def split_from_nonempty)

lemma components_length: "2 \<le> length (components s)"
proof (cases "split s (CHR ''.'')")
  case Nil
  then show ?thesis by (simp add: split_nonempty)
next
  case (Cons t ts)
  then show ?thesis by (simp add: components_def Let_def)
qed

lemma getitem_in_range: "i < length xs \<Longrightarrow> getitem xs i = Inr (xs ! i)"
  by (simp add: getitem_def)

lemma getitem_components_major: "getitem (components s) 0 = Inr (components s ! 0)"
proof -
  have "0 < length (components s)" using components_length [of s] by linarith
  then show ?thesis by (rule getitem_in_range)
qed

lemma getitem_components_minor: "getitem (components s) 1 = Inr (components s ! 1)"
proof -
  have "1 < length (components s)" using components_length [of s] by linarith
  then show ?thesis by (rule getitem_in_range)
qed

lemma getitem_components_minor_Suc: "getitem (components s) (Suc 0) = Inr (components s ! Suc 0)"
  using getitem_components_minor [of s] by simp

lemma versionCheck_supplied:
  "versionCheck (prog # expected # given # rest) =
     compare expected given (components given) (components expected)"
  by (simp add: versionCheck_def)

text \<open>
  The program name and any argument after the second are never read.
\<close>

lemma versionCheck_reads_two_arguments:
  "versionCheck (prog # expected # given # rest) = versionCheck (prog' # expected # given # rest')"
  by (simp add: versionCheck_supplied)

text \<open>
  A string without a dot gives a list of two elements, a string with a dot a list of at
  least three whose element at index 1 is a token.
\<close>

lemma components_one_token:
  assumes "length (split s (CHR ''.'')) < 2"
  shows "\<exists>t. components s = [PyStr t, PyInt 0]"
proof (cases "split s (CHR ''.'')")
  case Nil
  then show ?thesis by (simp add: split_nonempty)
next
  case (Cons t ts)
  with assms have "ts = []" by simp
  with Cons show ?thesis by (simp add: components_def)
qed

lemma components_more_tokens:
  assumes "2 \<le> length (split s (CHR ''.''))"
  shows "3 \<le> length (components s) \<and> (\<exists>t. components s ! 1 = PyStr t)"
proof (cases "split s (CHR ''.'')")
  case Nil
  with assms show ?thesis by simp
next
  case (Cons t ts)
  with assms obtain u us where "ts = u # us" by (cases ts) auto
  with Cons show ?thesis by (cases us) (simp_all add: components_def)
qed

lemma getitem_more_tokens:
  assumes "2 \<le> length (split s (CHR ''.''))" and "i < 3"
  shows "getitem (components s) i = Inr (components s ! i)"
  using components_more_tokens [OF assms(1)] assms(2) by (simp add: getitem_def)

lemma no_exception:
  assumes "2 \<le> length (split given (CHR ''.'')) \<or> 2 \<le> length (split expected (CHR ''.''))"
  shows "\<exists>out n. compare x y (components given) (components expected) = (out, Exit n)"
proof -
  let ?g = "components given" and ?e = "components expected"
  have e0: "eq_at ?g ?e 0 = Inr (?g ! 0 = ?e ! 0)"
    by (simp add: eq_at_def getitem_components_major)
  have e1: "eq_at ?g ?e (Suc 0) = Inr (?g ! 1 = ?e ! 1)"
    by (simp add: eq_at_def getitem_components_minor_Suc)
  consider (both) "2 \<le> length (split given (CHR ''.''))" "2 \<le> length (split expected (CHR ''.''))"
    | (given) "2 \<le> length (split given (CHR ''.''))" "length (split expected (CHR ''.'')) < 2"
    | (expected) "length (split given (CHR ''.'')) < 2" "2 \<le> length (split expected (CHR ''.''))"
    using assms by linarith
  then show ?thesis
  proof cases
    case both
    then have "eq_at ?g ?e 2 = Inr (?g ! 2 = ?e ! 2)" "ne_at ?g ?e 2 = Inr (?g ! 2 \<noteq> ?e ! 2)"
      by (simp_all add: eq_at_def ne_at_def getitem_more_tokens)
    then show ?thesis by (simp add: compare_def e0 e1)
  next
    case given
    from components_more_tokens [OF given(1)] obtain t where "?g ! 1 = PyStr t" by blast
    moreover from components_one_token [OF given(2)] have "?e ! 1 = PyInt 0" by auto
    ultimately show ?thesis by (simp add: compare_def e0 e1)
  next
    case expected
    from components_more_tokens [OF expected(2)] obtain t where "?e ! 1 = PyStr t" by blast
    moreover from components_one_token [OF expected(1)] have "?g ! 1 = PyInt 0" by auto
    ultimately show ?thesis by (simp add: compare_def e0 e1)
  qed
qed

text \<open>
  The comparison reads nothing but the elements at indices 0, 1 and 2: lists that agree
  there take the same branch.
\<close>

lemma components_take3:
  assumes "take 3 (split s (CHR ''.'')) = take 3 (split t (CHR ''.''))" and "i < 3"
  shows "getitem (components s) i = getitem (components t) i"
proof (cases "length (split s (CHR ''.'')) < 3")
  case True
  then have s: "take 3 (split s (CHR ''.'')) = split s (CHR ''.'')" by simp
  have "length (take 3 (split t (CHR ''.''))) < 3" using assms(1) True s by simp
  then have "length (split t (CHR ''.'')) < 3" by simp
  then have "take 3 (split t (CHR ''.'')) = split t (CHR ''.'')" by simp
  with assms(1) s have "split s (CHR ''.'') = split t (CHR ''.'')" by simp
  then show ?thesis by (simp add: components_def)
next
  case False
  then have ls: "3 \<le> length (split s (CHR ''.''))" by simp
  have "length (take 3 (split t (CHR ''.''))) = 3" using assms(1) ls
    by (metis length_take min.absorb2)
  then have lt: "3 \<le> length (split t (CHR ''.''))" by simp
  have "split s (CHR ''.'') ! i = take 3 (split s (CHR ''.'')) ! i" using assms(2) by simp
  also have "\<dots> = split t (CHR ''.'') ! i" using assms by simp
  finally show ?thesis using ls lt assms(2) by (simp add: components_def getitem_def)
qed

lemma eq_at_cong:
  assumes "getitem g i = getitem g' i" and "getitem e i = getitem e' i"
  shows "eq_at g e i = eq_at g' e' i"
  unfolding eq_at_def assms ..

lemma ne_at_cong:
  assumes "getitem g i = getitem g' i" and "getitem e i = getitem e' i"
  shows "ne_at g e i = ne_at g' e' i"
  unfolding ne_at_def assms ..

lemma compare_cong:
  assumes "\<And>i. i < 3 \<Longrightarrow> getitem g i = getitem g' i"
    and "\<And>i. i < 3 \<Longrightarrow> getitem e i = getitem e' i"
  shows "(compare x y g e = ([], Exit 0) \<and> compare x' y' g' e' = ([], Exit 0)) \<or>
     (compare x y g e = ([''Recommend using ESP-IDF '' @ x @ '' (found '' @ y @ '')'', update], Exit 0) \<and>
      compare x' y' g' e' = ([''Recommend using ESP-IDF '' @ x' @ '' (found '' @ y' @ '')'', update], Exit 0)) \<or>
     (compare x y g e = ([''*** Update required to ESP-IDF '' @ x, update], Exit 1) \<and>
      compare x' y' g' e' = ([''*** Update required to ESP-IDF '' @ x', update], Exit 1)) \<or>
     (compare x y g e = ([], Uncaught IndexError) \<and> compare x' y' g' e' = ([], Uncaught IndexError))"
proof -
  have e0: "eq_at g e 0 = eq_at g' e' 0" by (rule eq_at_cong) (simp_all add: assms)
  have e1: "eq_at g e 1 = eq_at g' e' 1" by (rule eq_at_cong) (simp_all add: assms)
  have e2: "eq_at g e 2 = eq_at g' e' 2" by (rule eq_at_cong) (simp_all add: assms)
  have ne: "ne_at g e 2 = ne_at g' e' 2" by (rule ne_at_cong) (simp_all add: assms)
  have nn: "ne_at g' e' 2 = Inr b \<Longrightarrow> eq_at g' e' 2 = Inr (\<not> b)" for b
    by (auto simp: ne_at_def eq_at_def split: sum.splits)
  show ?thesis
    unfolding compare_def e0 e1 e2 ne
    by (cases "eq_at g' e' 0"; cases "eq_at g' e' 1"; cases "eq_at g' e' 2"; cases "ne_at g' e' 2")
       (auto dest: nn intro: py_error.exhaust)
qed

subsection \<open>The argument guard\<close>

text \<open>
  C3: with fewer than two arguments after the program name, the script prints exactly
  the line "Not enough parameters" and exits with status 1; the result does not depend
  on what the arguments are, so no version is compared.
\<close>

theorem not_enough_parameters:
  "length argv < 3 \<Longrightarrow> versionCheck argv = ([''Not enough parameters''], Exit 1)"
  by (simp add: versionCheck_def)

theorem not_enough_parameters_witness:
  "length [''versionCheck.py'', ''4.4.2''] < 3 \<and>
   versionCheck [''versionCheck.py'', ''4.4.2''] = ([''Not enough parameters''], Exit 1)"
  using not_enough_parameters [of "[''versionCheck.py'', ''4.4.2'']"] by simp

subsection \<open>Scenarios\<close>

text \<open>
  C7: for expected "4.4" and given "4.4" each list is the two tokens followed by the
  integer 0, the three comparisons succeed, and the script exits with status 0 having
  printed nothing.
\<close>

theorem both_missing_patch:
  "components ''4.4'' = [PyStr ''4'', PyStr ''4'', PyInt 0] \<and>
   versionCheck [''versionCheck.py'', ''4.4'', ''4.4''] = ([], Exit 0)"
  by (simp add: versionCheck_def components_def split_def compare_def eq_at_def getitem_def)

subsection \<open>The comparison\<close>

text \<open>
  C4: when both arguments are supplied and the elements at index 0 of the two lists
  differ, or they are equal and the elements at index 1 differ, the script prints
  "*** Update required to ESP-IDF " followed by the expected string, then the line of
  update instructions, and exits with status 1. (The reads at indices 0 and 1 are always
  in range, see \<open>getitem_components_major\<close> and \<open>getitem_components_minor\<close>.)
\<close>

theorem update_required:
  assumes "getitem (components given) 0 \<noteq> getitem (components expected) 0 \<or>
           (getitem (components given) 0 = getitem (components expected) 0 \<and>
            getitem (components given) 1 \<noteq> getitem (components expected) 1)"
  shows "versionCheck (prog # expected # given # rest) =
           ([''*** Update required to ESP-IDF '' @ expected, update], Exit 1)"
  using assms
  by (auto simp: versionCheck_supplied compare_def eq_at_def getitem_components_major
      getitem_components_minor_Suc)

theorem update_required_witness:
  "getitem (components ''4.3.2'') 0 = getitem (components ''4.4.2'') 0 \<and>
   getitem (components ''4.3.2'') 1 \<noteq> getitem (components ''4.4.2'') 1 \<and>
   versionCheck [''versionCheck.py'', ''4.4.2'', ''4.3.2''] =
     ([''*** Update required to ESP-IDF 4.4.2'', update], Exit 1) \<and>
   getitem (components ''4.9.9'') 0 \<noteq> getitem (components ''5.0.0'') 0 \<and>
   versionCheck [''versionCheck.py'', ''5.0.0'', ''4.9.9''] =
     ([''*** Update required to ESP-IDF 5.0.0'', update], Exit 1)"
  using update_required [of "''4.3.2''" "''4.4.2''" "''versionCheck.py''" "[]"]
    update_required [of "''4.9.9''" "''5.0.0''" "''versionCheck.py''" "[]"]
  by (simp add: components_def split_def getitem_def)

text \<open>
  C5: when both arguments are supplied, the elements at indices 0 and 1 are equal, both
  lists have an element at index 2 and these differ, the script prints
  "Recommend using ESP-IDF " + expected + " (found " + given + ")", then the line of update
  instructions, and exits with status 0.
\<close>

theorem recommend_on_patch:
  assumes "getitem (components given) 0 = getitem (components expected) 0"
    and "getitem (components given) 1 = getitem (components expected) 1"
    and "getitem (components given) 2 = Inr p"
    and "getitem (components expected) 2 = Inr q"
    and "p \<noteq> q"
  shows "versionCheck (prog # expected # given # rest) =
           ([''Recommend using ESP-IDF '' @ expected @ '' (found '' @ given @ '')'', update], Exit 0)"
  using assms
  by (simp add: versionCheck_supplied compare_def eq_at_def ne_at_def getitem_components_major
      getitem_components_minor_Suc)

theorem recommend_on_patch_witness:
  "getitem (components ''4.4.5'') 0 = getitem (components ''4.4.2'') 0 \<and>
   getitem (components ''4.4.5'') 1 = getitem (components ''4.4.2'') 1 \<and>
   getitem (components ''4.4.5'') 2 = Inr (PyStr ''5'') \<and>
   getitem (components ''4.4.2'') 2 = Inr (PyStr ''2'') \<and>
   PyStr ''5'' \<noteq> PyStr ''2'' \<and>
   versionCheck [''versionCheck.py'', ''4.4.2'', ''4.4.5''] =
     ([''Recommend using ESP-IDF 4.4.2 (found 4.4.5)'', update], Exit 0)"
  using recommend_on_patch [of "''4.4.5''" "''4.4.2''" "PyStr ''5''" "PyStr ''2''" "''versionCheck.py''" "[]"]
  by (simp add: components_def split_def getitem_def)

subsection \<open>Identical arguments without a dot\<close>

text \<open>
  C1: the claim is that identical arguments always give exit status 0 and no output.
  For expected "4" and given "4" each list is \<^verbatim>\<open>['4', 0]\<close>: the guard \<^verbatim>\<open>len(g) < 3\<close> holds
  but a single \<^verbatim>\<open>append\<close> leaves two elements, the comparisons at indices 0 and 1
  succeed, and the read \<^verbatim>\<open>g[2]\<close> raises \<^verbatim>\<open>IndexError\<close>; the exit status is 1.
\<close>

theorem identical_single_token:
  "versionCheck [''versionCheck.py'', ''4'', ''4''] = ([], Uncaught IndexError) \<and>
   exit_status (snd (versionCheck [''versionCheck.py'', ''4'', ''4''])) = 1"
  by (simp add: versionCheck_def components_def split_def compare_def eq_at_def getitem_def)

subsection \<open>The lists built from the arguments\<close>

text \<open>
  C2, as claimed: every version string gives a list of exactly three components. The
  string "1.2.3.4" gives four: the list is never truncated.
\<close>

theorem four_tokens_counterexample:
  "components ''1.2.3.4'' = [PyStr ''1'', PyStr ''2'', PyStr ''3'', PyStr ''4''] \<and>
   length (components ''1.2.3.4'') \<noteq> 3"
  by (simp add: components_def split_def)

text \<open>
  C2, amended: a version string with at least two tokens gives a list of at least three
  components, exactly three when it has two or three tokens. A string of two tokens gets
  the integer 0 appended; a string of three or more tokens is kept as it was split.
\<close>

theorem components_three:
  assumes "2 \<le> length (split s (CHR ''.''))"
  shows "3 \<le> length (components s) \<and>
         (length (split s (CHR ''.'')) \<le> 3 \<longrightarrow> length (components s) = 3) \<and>
         (length (split s (CHR ''.'')) = 2 \<longrightarrow> components s = map PyStr (split s (CHR ''.'')) @ [PyInt 0]) \<and>
         (3 \<le> length (split s (CHR ''.'')) \<longrightarrow> components s = map PyStr (split s (CHR ''.'')))"
  using assms by (auto simp: components_def Let_def)

theorem components_three_witness:
  "2 \<le> length (split ''4.4'' (CHR ''.'')) \<and>
   length (split ''4.4'' (CHR ''.'')) \<le> 3 \<and>
   length (split ''4.4'' (CHR ''.'')) = 2 \<and>
   components ''4.4'' = [PyStr ''4'', PyStr ''4'', PyInt 0] \<and>
   3 \<le> length (split ''1.2.3.4'' (CHR ''.'')) \<and>
   components ''1.2.3.4'' = map PyStr (split ''1.2.3.4'' (CHR ''.''))"
  using components_three [of "''4.4''"] components_three [of "''1.2.3.4''"]
  by (simp add: split_def)

subsection \<open>Tokens after the third\<close>

text \<open>
  C6, as claimed: two invocations whose arguments agree on the first three tokens print
  the same text. The messages quote the arguments in full, so expected "4.4.2.1" and
  "4.4.2.9" against given "4.4.5" print different first lines.
\<close>

theorem later_tokens_counterexample:
  "take 3 (split ''4.4.2.1'' (CHR ''.'')) = take 3 (split ''4.4.2.9'' (CHR ''.'')) \<and>
   take 3 (split ''4.4.5'' (CHR ''.'')) = take 3 (split ''4.4.5'' (CHR ''.'')) \<and>
   fst (versionCheck [''versionCheck.py'', ''4.4.2.1'', ''4.4.5'']) \<noteq>
   fst (versionCheck [''versionCheck.py'', ''4.4.2.9'', ''4.4.5''])"
  by (simp add: versionCheck_def components_def split_def compare_def eq_at_def ne_at_def getitem_def)

text \<open>
  C6, amended: two invocations whose expected strings agree on their first three tokens,
  and whose given strings do, take the same branch: both exit silently with status 0,
  or both print the recommendation (each quoting its own arguments) and exit 0, or both
  print the required update (each quoting its own expected string) and exit 1, or both
  end in \<^verbatim>\<open>IndexError\<close>. An argument of more than three tokens never causes an error.
\<close>

theorem later_tokens_ignored:
  assumes "take 3 (split expected (CHR ''.'')) = take 3 (split expected' (CHR ''.''))"
    and "take 3 (split given (CHR ''.'')) = take 3 (split given' (CHR ''.''))"
  shows "((versionCheck (prog # expected # given # rest) = ([], Exit 0) \<and>
           versionCheck (prog' # expected' # given' # rest') = ([], Exit 0)) \<or>
          (versionCheck (prog # expected # given # rest) =
             ([''Recommend using ESP-IDF '' @ expected @ '' (found '' @ given @ '')'', update], Exit 0) \<and>
           versionCheck (prog' # expected' # given' # rest') =
             ([''Recommend using ESP-IDF '' @ expected' @ '' (found '' @ given' @ '')'', update], Exit 0)) \<or>
          (versionCheck (prog # expected # given # rest) =
             ([''*** Update required to ESP-IDF '' @ expected, update], Exit 1) \<and>
           versionCheck (prog' # expected' # given' # rest') =
             ([''*** Update required to ESP-IDF '' @ expected', update], Exit 1)) \<or>
          (versionCheck (prog # expected # given # rest) = ([], Uncaught IndexError) \<and>
           versionCheck (prog' # expected' # given' # rest') = ([], Uncaught IndexError))) \<and>
         (3 < length (split expected (CHR ''.'')) \<or> 3 < length (split given (CHR ''.'')) \<longrightarrow>
            (\<exists>out n. versionCheck (prog # expected # given # rest) = (out, Exit n)))"
proof
  show "(versionCheck (prog # expected # given # rest) = ([], Exit 0) \<and>
           versionCheck (prog' # expected' # given' # rest') = ([], Exit 0)) \<or>
          (versionCheck (prog # expected # given # rest) =
             ([''Recommend using ESP-IDF '' @ expected @ '' (found '' @ given @ '')'', update], Exit 0) \<and>
           versionCheck (prog' # expected' # given' # rest') =
             ([''Recommend using ESP-IDF '' @ expected' @ '' (found '' @ given' @ '')'', update], Exit 0)) \<or>
          (versionCheck (prog # expected # given # rest) =
             ([''*** Update required to ESP-IDF '' @ expected, update], Exit 1) \<and>
           versionCheck (prog' # expected' # given' # rest') =
             ([''*** Update required to ESP-IDF '' @ expected', update], Exit 1)) \<or>
          (versionCheck (prog # expected # given # rest) = ([], Uncaught IndexError) \<and>
           versionCheck (prog' # expected' # given' # rest') = ([], Uncaught IndexError))"
    unfolding versionCheck_supplied
    by (rule compare_cong) (simp_all add: components_take3 [OF assms(1)] components_take3 [OF assms(2)])
next
  show "3 < length (split expected (CHR ''.'')) \<or> 3 < length (split given (CHR ''.'')) \<longrightarrow>
            (\<exists>out n. versionCheck (prog # expected # given # rest) = (out, Exit n))"
    unfolding versionCheck_supplied
    by (intro impI no_exception) linarith
qed

theorem later_tokens_ignored_witness:
  "take 3 (split ''4.4.2.1'' (CHR ''.'')) = take 3 (split ''4.4.2.9'' (CHR ''.'')) \<and>
   take 3 (split ''4.4.5'' (CHR ''.'')) = take 3 (split ''4.4.5.0.7'' (CHR ''.'')) \<and>
   3 < length (split ''4.4.2.1'' (CHR ''.'')) \<and>
   versionCheck [''versionCheck.py'', ''4.4.2.1'', ''4.4.5''] =
     ([''Recommend using ESP-IDF 4.4.2.1 (found 4.4.5)'', update], Exit 0) \<and>
   versionCheck [''versionCheck.py'', ''4.4.2.9'', ''4.4.5.0.7''] =
     ([''Recommend using ESP-IDF 4.4.2.9 (found 4.4.5.0.7)'', update], Exit 0)"
  using later_tokens_ignored [of "''4.4.2.1''" "''4.4.2.9''" "''4.4.5''" "''4.4.5.0.7''"
      "''versionCheck.py''" "[]" "''versionCheck.py''" "[]"]
  by (simp add: versionCheck_def components_def split_def compare_def eq_at_def ne_at_def getitem_def)

subsection \<open>Which list accesses are in range\<close>

text \<open>
  C9: when the expected and the given string each split into at least two tokens, every
  read at indices 0, 1 and 2 of both lists is in range and the script ends with
  \<^verbatim>\<open>sys.exit\<close>, not with an exception. When one of the strings splits into fewer than two
  tokens and the elements at index 0 are equal and the elements at index 1 are equal,
  the read at index 2 is out of range (in both lists) and the script ends in an uncaught
  \<^verbatim>\<open>IndexError\<close> with nothing printed.
\<close>

theorem index_accesses:
  "(2 \<le> length (split expected (CHR ''.'')) \<and> 2 \<le> length (split given (CHR ''.'')) \<longrightarrow>
      (\<forall>i<3. getitem (components given) i = Inr (components given ! i) \<and>
              getitem (components expected) i = Inr (components expected ! i)) \<and>
      (\<exists>out n. versionCheck (prog # expected # given # rest) = (out, Exit n))) \<and>
   ((length (split expected (CHR ''.'')) < 2 \<or> length (split given (CHR ''.'')) < 2) \<and>
    getitem (components given) 0 = getitem (components expected) 0 \<and>
    getitem (components given) 1 = getitem (components expected) 1 \<longrightarrow>
      getitem (components given) 2 = Inl IndexError \<and>
      getitem (components expected) 2 = Inl IndexError \<and>
      versionCheck (prog # expected # given # rest) = ([], Uncaught IndexError))"
proof (intro conjI impI)
  assume a: "2 \<le> length (split expected (CHR ''.'')) \<and> 2 \<le> length (split given (CHR ''.''))"
  then show "\<forall>i<3. getitem (components given) i = Inr (components given ! i) \<and>
              getitem (components expected) i = Inr (components expected ! i)"
    by (simp add: getitem_more_tokens)
  from a show "\<exists>out n. versionCheck (prog # expected # given # rest) = (out, Exit n)"
    unfolding versionCheck_supplied by (intro no_exception) simp
next
  assume b: "(length (split expected (CHR ''.'')) < 2 \<or> length (split given (CHR ''.'')) < 2) \<and>
    getitem (components given) 0 = getitem (components expected) 0 \<and>
    getitem (components given) 1 = getitem (components expected) 1"
  let ?g = "components given" and ?e = "components expected"
  from b have minor: "?g ! 1 = ?e ! 1" by (simp add: getitem_components_minor_Suc)
  have ge: "length (split expected (CHR ''.'')) < 2 \<and> length (split given (CHR ''.'')) < 2"
  proof (rule ccontr)
    assume "\<not> ?thesis"
    with b consider
        (given) "2 \<le> length (split given (CHR ''.''))" "length (split expected (CHR ''.'')) < 2"
      | (expected) "length (split given (CHR ''.'')) < 2" "2 \<le> length (split expected (CHR ''.''))"
      by linarith
    then show False
    proof cases
      case given
      from components_more_tokens [OF given(1)] obtain t where "?g ! 1 = PyStr t" by blast
      moreover from components_one_token [OF given(2)] have "?e ! 1 = PyInt 0" by auto
      ultimately show False using minor by simp
    next
      case expected
      from components_more_tokens [OF expected(2)] obtain t where "?e ! 1 = PyStr t" by blast
      moreover from components_one_token [OF expected(1)] have "?g ! 1 = PyInt 0" by auto
      ultimately show False using minor by simp
    qed
  qed
  from ge components_one_token obtain t where g: "?g = [PyStr t, PyInt 0]" by blast
  from ge components_one_token obtain u where e: "?e = [PyStr u, PyInt 0]" by blast
  show g2: "getitem ?g 2 = Inl IndexError" by (simp add: g getitem_def)
  show e2: "getitem ?e 2 = Inl IndexError" by (simp add: e getitem_def)
  from b have "t = u" by (simp add: g e getitem_def)
  then show "versionCheck (prog # expected # given # rest) = ([], Uncaught IndexError)"
    unfolding versionCheck_supplied by (simp add: compare_def eq_at_def g e getitem_def)
qed

theorem index_accesses_witness:
  "2 \<le> length (split ''4.4.2'' (CHR ''.'')) \<and> 2 \<le> length (split ''4.4'' (CHR ''.'')) \<and>
   getitem (components ''4.4'') 2 = Inr (PyInt 0) \<and>
   getitem (components ''4.4.2'') 2 = Inr (PyStr ''2'') \<and>
   (\<exists>out n. versionCheck [''versionCheck.py'', ''4.4.2'', ''4.4''] = (out, Exit n)) \<and>
   length (split ''4'' (CHR ''.'')) < 2 \<and>
   getitem (components ''4'') 0 = Inr (PyStr ''4'') \<and>
   getitem (components ''4'') 1 = Inr (PyInt 0) \<and>
   getitem (components ''4'') 2 = Inl IndexError \<and>
   versionCheck [''versionCheck.py'', ''4'', ''4''] = ([], Uncaught IndexError)"
  using index_accesses [of "''4.4.2''" "''4.4''" "''versionCheck.py''" "[]"]
    index_accesses [of "''4''" "''4''" "''versionCheck.py''" "[]"]
  by (simp add: components_def split_def getitem_def)

subsection \<open>The padding element is the integer 0\<close>

text \<open>
  C10, as claimed: whenever one string has two tokens and the other has the third token
  "0", the script prints the recommendation and exits with status 0. For expected
  "4.4.0" and given "5.4" the elements at index 2 do differ, but the elements at index 0
  differ first: the script prints the required update and exits with status 1.
\<close>

theorem zero_token_counterexample:
  "length (split ''5.4'' (CHR ''.'')) = 2 \<and>
   getitem (split ''4.4.0'' (CHR ''.'')) 2 = Inr ''0'' \<and>
   getitem (components ''5.4'') 2 \<noteq> getitem (components ''4.4.0'') 2 \<and>
   versionCheck [''versionCheck.py'', ''4.4.0'', ''5.4''] =
     ([''*** Update required to ESP-IDF 4.4.0'', update], Exit 1)"
  by (simp add: versionCheck_def components_def split_def compare_def eq_at_def ne_at_def getitem_def)

text \<open>
  C10, amended: when one of the two strings splits into exactly two tokens and the other
  has the same first two tokens followed by the third token "0" (and possibly more), the
  elements at index 2 compare unequal, the integer 0 against the string "0", and the
  script prints the recommendation and the line of update instructions and exits with
  status 0.
\<close>

theorem padding_is_integer:
  assumes "(split given (CHR ''.'') = [a, b] \<and> split expected (CHR ''.'') = a # b # ''0'' # more) \<or>
           (split expected (CHR ''.'') = [a, b] \<and> split given (CHR ''.'') = a # b # ''0'' # more)"
  shows "getitem (components given) 2 \<noteq> getitem (components expected) 2 \<and>
         versionCheck (prog # expected # given # rest) =
           ([''Recommend using ESP-IDF '' @ expected @ '' (found '' @ given @ '')'', update], Exit 0)"
  using assms
  by (auto simp: versionCheck_supplied components_def compare_def eq_at_def ne_at_def getitem_def)

theorem padding_is_integer_witness:
  "split ''4.4'' (CHR ''.'') = [''4'', ''4''] \<and>
   split ''4.4.0'' (CHR ''.'') = [''4'', ''4'', ''0''] \<and>
   getitem (components ''4.4'') 2 = Inr (PyInt 0) \<and>
   getitem (components ''4.4.0'') 2 = Inr (PyStr ''0'') \<and>
   versionCheck [''versionCheck.py'', ''4.4.0'', ''4.4''] =
     ([''Recommend using ESP-IDF 4.4.0 (found 4.4)'', update], Exit 0) \<and>
   versionCheck [''versionCheck.py'', ''4.4'', ''4.4.0''] =
     ([''Recommend using ESP-IDF 4.4 (found 4.4.0)'', update], Exit 0)"
  using padding_is_integer [of "''4.4''" "''4''" "''4''" "''4.4.0''" "[]" "''versionCheck.py''" "[]"]
    padding_is_integer [of "''4.4.0''" "''4''" "''4''" "''4.4''" "[]" "''versionCheck.py''" "[]"]
  by (simp add: components_def split_def getitem_def)

end
